theory Spec2Isabelle
  imports Main "HOL-Library.Word"
begin

section \<open>The shared and weak pointers of shared\_and\_weak.cpp\<close>

text \<open>
  Control blocks live in a heap indexed by their address. An address that holds no
  control block (never allocated, or already deleted) is absent from the heap, and every
  access through such an address is a fault: the C++ program has undefined behaviour there.
  The two counters are \<open>std::atomic<int>\<close>: 32-bit values whose \<open>fetch_add\<close> and
  \<open>fetch_sub\<close> wrap around. Only sequential executions are modelled, so each atomic
  operation is one state update; \<open>operator new\<close> is taken to succeed and to return an
  address that was never used before.
\<close>

type_synonym addr = nat
type_synonym var = nat

text \<open>
  A \<open>T*\<close> is either the storage directly behind a control block (\<open>cb + 1\<close>, where
  \<open>make_shared\<close> places the payload) or an object the caller allocated itself.
\<close>

datatype obj_ptr = Adjacent addr | Raw nat

record control_block =
  strong_count :: "32 word"
  weak_count :: "32 word"

text \<open>The two fields of \<open>my_shared_ptr\<close> and of \<open>my_weak_ptr\<close>; \<open>None\<close> is \<open>nullptr\<close>.\<close>

record smart_ptr =
  ptr :: "obj_ptr option"
  control :: "addr option"

text \<open>
  What the program does to memory and to payload objects, in program order:
  \<open>Destructor p\<close> is the explicit call \<open>p->~T()\<close>, \<open>Delete_block cb\<close> is
  \<open>delete this\<close> inside a control block.
\<close>

datatype event =
    Operator_new addr
  | Constructed obj_ptr
  | Destructor obj_ptr
  | Delete_block addr

record state =
  blocks :: "addr \<rightharpoonup> control_block"
  shared_vars :: "var \<rightharpoonup> smart_ptr"
  weak_vars :: "var \<rightharpoonup> smart_ptr"
  trace :: "event list"
  next_addr :: addr

datatype 's fault =
    Dangling_control addr
  | Null_dereference
  | Dead_variable var
  | Invalid_delete nat
  | Invalid_free obj_ptr
  | Constructor_threw 's

definition init :: state where
  "init = \<lparr>blocks = Map.empty, shared_vars = Map.empty, weak_vars = Map.empty,
            trace = [], next_addr = 0\<rparr>"

definition emit :: "event \<Rightarrow> state \<Rightarrow> state" where
  "emit e s = s\<lparr>trace := trace s @ [e]\<rparr>"

definition empty_ptr :: smart_ptr where
  "empty_ptr = \<lparr>ptr = None, control = None\<rparr>"

subsection \<open>control\_block\<close>

text \<open>\<open>control_block() : strong_count(1), weak_count(0) {}\<close>\<close>

definition control_block_ctor :: control_block where
  "control_block_ctor = \<lparr>strong_count = 1, weak_count = 0\<rparr>"

text \<open>The atomic read-modify-write operations return the value held before.\<close>

definition strong_count_fetch_add :: "addr \<Rightarrow> state \<Rightarrow> state fault + state" where
  "strong_count_fetch_add cb s =
     (case blocks s cb of
        None \<Rightarrow> Inl (Dangling_control cb)
      | Some c \<Rightarrow> Inr (s\<lparr>blocks := (blocks s)(cb \<mapsto> c\<lparr>strong_count := strong_count c + 1\<rparr>)\<rparr>))"

definition strong_count_fetch_sub :: "addr \<Rightarrow> state \<Rightarrow> state fault + 32 word \<times> state" where
  "strong_count_fetch_sub cb s =
     (case blocks s cb of
        None \<Rightarrow> Inl (Dangling_control cb)
      | Some c \<Rightarrow>
          Inr (strong_count c,
               s\<lparr>blocks := (blocks s)(cb \<mapsto> c\<lparr>strong_count := strong_count c - 1\<rparr>)\<rparr>))"

definition strong_count_load :: "addr \<Rightarrow> state \<Rightarrow> state fault + 32 word" where
  "strong_count_load cb s =
     (case blocks s cb of
        None \<Rightarrow> Inl (Dangling_control cb)
      | Some c \<Rightarrow> Inr (strong_count c))"

definition weak_count_fetch_sub :: "addr \<Rightarrow> state \<Rightarrow> state fault + 32 word \<times> state" where
  "weak_count_fetch_sub cb s =
     (case blocks s cb of
        None \<Rightarrow> Inl (Dangling_control cb)
      | Some c \<Rightarrow>
          Inr (weak_count c,
               s\<lparr>blocks := (blocks s)(cb \<mapsto> c\<lparr>weak_count := weak_count c - 1\<rparr>)\<rparr>))"

definition add_weak :: "addr \<Rightarrow> state \<Rightarrow> state fault + state" where
  "add_weak this s =
     (case blocks s this of
        None \<Rightarrow> Inl (Dangling_control this)
      | Some c \<Rightarrow> Inr (s\<lparr>blocks := (blocks s)(this \<mapsto> c\<lparr>weak_count := weak_count c + 1\<rparr>)\<rparr>))"

text \<open>\<open>if (weak_count.fetch_sub(1) == 1) delete this;\<close>\<close>

definition release_weak :: "addr \<Rightarrow> state \<Rightarrow> state fault + state" where
  "release_weak this s =
     (case weak_count_fetch_sub this s of
        Inl e \<Rightarrow> Inl e
      | Inr (old, s1) \<Rightarrow>
          if old = 1
          then Inr (emit (Delete_block this) (s1\<lparr>blocks := (blocks s1)(this := None)\<rparr>))
          else Inr s1)"

text \<open>
  \<open>if (strong_count.fetch_sub(1) == 1) { delete static_cast<T*>(this + 1); release_weak(); }\<close>
  No other function of the file calls this one, and the cast is accepted only for a
  payload type derived from \<open>control_block<T>\<close>. The address \<open>this + 1\<close> is never one
  that \<open>operator new\<close> returned: behind a \<open>make_shared\<close> control block it lies inside
  the combined allocation, behind a control block of its own allocation it lies past
  the end. The delete-expression is therefore a fault, as \<open>delete\<close> of an address
  without a live object is for the unique pointer, and \<open>release_weak()\<close> is not reached.
\<close>

definition release_strong :: "addr \<Rightarrow> state \<Rightarrow> state fault + state" where
  "release_strong this s =
     (case strong_count_fetch_sub this s of
        Inl e \<Rightarrow> Inl e
      | Inr (old, s1) \<Rightarrow>
          if old = 1
          then Inl (Invalid_free (Adjacent this))
          else Inr s1)"

subsection \<open>my\_shared\_ptr\<close>

definition my_shared_ptr_default :: "var \<Rightarrow> state \<Rightarrow> state fault + state" where
  "my_shared_ptr_default this s = Inr (s\<lparr>shared_vars := (shared_vars s)(this \<mapsto> empty_ptr)\<rparr>)"

text \<open>\<open>explicit my_shared_ptr(T* p) : ptr(p), control(new control_block<T>()) {}\<close>\<close>

definition my_shared_ptr_from_raw :: "var \<Rightarrow> obj_ptr option \<Rightarrow> state \<Rightarrow> state fault + state" where
  "my_shared_ptr_from_raw this p s =
     (let cb = next_addr s;
          s1 = emit (Operator_new cb)
                 (s\<lparr>blocks := (blocks s)(cb \<mapsto> control_block_ctor), next_addr := Suc cb\<rparr>)
      in Inr (s1\<lparr>shared_vars := (shared_vars s1)(this \<mapsto> \<lparr>ptr = p, control = Some cb\<rparr>)\<rparr>))"

definition my_shared_ptr_copy :: "var \<Rightarrow> var \<Rightarrow> state \<Rightarrow> state fault + state" where
  "my_shared_ptr_copy this other s =
     (case shared_vars s other of
        None \<Rightarrow> Inl (Dead_variable other)
      | Some q \<Rightarrow>
          (let s1 = s\<lparr>shared_vars := (shared_vars s)(this \<mapsto> q)\<rparr>
           in case control q of
                None \<Rightarrow> Inr s1
              | Some cb \<Rightarrow> strong_count_fetch_add cb s1))"

definition my_shared_ptr_move :: "var \<Rightarrow> var \<Rightarrow> state \<Rightarrow> state fault + state" where
  "my_shared_ptr_move this other s =
     (case shared_vars s other of
        None \<Rightarrow> Inl (Dead_variable other)
      | Some q \<Rightarrow> Inr (s\<lparr>shared_vars := (shared_vars s)(this \<mapsto> q, other \<mapsto> empty_ptr)\<rparr>))"

text \<open>
  \<open>if (control && control->strong_count.fetch_sub(1) == 1) { ptr->~T(); control->release_weak(); }\<close>
\<close>

definition release :: "var \<Rightarrow> state \<Rightarrow> state fault + state" where
  "release this s =
     (case shared_vars s this of
        None \<Rightarrow> Inl (Dead_variable this)
      | Some p \<Rightarrow>
          (case control p of
             None \<Rightarrow> Inr s
           | Some cb \<Rightarrow>
               (case strong_count_fetch_sub cb s of
                  Inl e \<Rightarrow> Inl e
                | Inr (old, s1) \<Rightarrow>
                    if old = 1
                    then (case ptr p of
                            None \<Rightarrow> Inl Null_dereference
                          | Some obj \<Rightarrow> release_weak cb (emit (Destructor obj) s1))
                    else Inr s1)))"

definition shared_copy_assign :: "var \<Rightarrow> var \<Rightarrow> state \<Rightarrow> state fault + state" where
  "shared_copy_assign this other s =
     (if this \<noteq> other
      then (case release this s of
              Inl e \<Rightarrow> Inl e
            | Inr s1 \<Rightarrow>
                (case shared_vars s1 other of
                   None \<Rightarrow> Inl (Dead_variable other)
                 | Some q \<Rightarrow>
                     (let s2 = s1\<lparr>shared_vars := (shared_vars s1)(this \<mapsto> q)\<rparr>
                      in case control q of
                           None \<Rightarrow> Inr s2
                         | Some cb \<Rightarrow> strong_count_fetch_add cb s2)))
      else Inr s)"

definition shared_move_assign :: "var \<Rightarrow> var \<Rightarrow> state \<Rightarrow> state fault + state" where
  "shared_move_assign this other s =
     (if this \<noteq> other
      then (case release this s of
              Inl e \<Rightarrow> Inl e
            | Inr s1 \<Rightarrow>
                (case shared_vars s1 other of
                   None \<Rightarrow> Inl (Dead_variable other)
                 | Some q \<Rightarrow>
                     Inr (s1\<lparr>shared_vars := (shared_vars s1)(this \<mapsto> q, other \<mapsto> empty_ptr)\<rparr>)))
      else Inr s)"

text \<open>The destructor runs \<open>release()\<close>; afterwards the variable no longer exists.\<close>

definition my_shared_ptr_dtor :: "var \<Rightarrow> state \<Rightarrow> state fault + state" where
  "my_shared_ptr_dtor this s =
     (case release this s of
        Inl e \<Rightarrow> Inl e
      | Inr s1 \<Rightarrow> Inr (s1\<lparr>shared_vars := (shared_vars s1)(this := None)\<rparr>))"

definition shared_use_count :: "var \<Rightarrow> state \<Rightarrow> state fault + 32 word" where
  "shared_use_count this s =
     (case shared_vars s this of
        None \<Rightarrow> Inl (Dead_variable this)
      | Some p \<Rightarrow>
          (case control p of
             None \<Rightarrow> Inr 0
           | Some cb \<Rightarrow> strong_count_load cb s))"

text \<open>
  \<open>make_shared\<close>: one \<open>operator new\<close> for control block and payload, the control block
  constructed in place at its start, the payload constructed in place behind it. The flag
  says whether the constructor of \<open>T\<close> returns; when it throws, the exception leaves
  \<open>make_shared\<close> with the state reached so far (there is no handler in the function, and
  placement new releases nothing).
\<close>

definition make_shared :: "var \<Rightarrow> bool \<Rightarrow> state \<Rightarrow> state fault + state" where
  "make_shared this ctor_returns s =
     (let cb = next_addr s;
          s1 = emit (Operator_new cb) (s\<lparr>next_addr := Suc cb\<rparr>);
          s2 = s1\<lparr>blocks := (blocks s1)(cb \<mapsto> control_block_ctor)\<rparr>
      in if ctor_returns
         then (let s3 = emit (Constructed (Adjacent cb)) s2
               in Inr (s3\<lparr>shared_vars :=
                            (shared_vars s3)(this \<mapsto> \<lparr>ptr = Some (Adjacent cb), control = Some cb\<rparr>)\<rparr>))
         else Inl (Constructor_threw s2))"

subsection \<open>my\_weak\_ptr\<close>

definition my_weak_ptr_default :: "var \<Rightarrow> state \<Rightarrow> state fault + state" where
  "my_weak_ptr_default this s = Inr (s\<lparr>weak_vars := (weak_vars s)(this \<mapsto> empty_ptr)\<rparr>)"

definition my_weak_ptr_from_shared :: "var \<Rightarrow> var \<Rightarrow> state \<Rightarrow> state fault + state" where
  "my_weak_ptr_from_shared this shared s =
     (case shared_vars s shared of
        None \<Rightarrow> Inl (Dead_variable shared)
      | Some q \<Rightarrow>
          (let s1 = s\<lparr>weak_vars := (weak_vars s)(this \<mapsto> q)\<rparr>
           in case control q of
                None \<Rightarrow> Inr s1
              | Some cb \<Rightarrow> add_weak cb s1))"

definition my_weak_ptr_copy :: "var \<Rightarrow> var \<Rightarrow> state \<Rightarrow> state fault + state" where
  "my_weak_ptr_copy this other s =
     (case weak_vars s other of
        None \<Rightarrow> Inl (Dead_variable other)
      | Some q \<Rightarrow>
          (let s1 = s\<lparr>weak_vars := (weak_vars s)(this \<mapsto> q)\<rparr>
           in case control q of
                None \<Rightarrow> Inr s1
              | Some cb \<Rightarrow> add_weak cb s1))"

text \<open>\<open>if (control) control->release_weak(); ptr = nullptr; control = nullptr;\<close>\<close>

definition reset :: "var \<Rightarrow> state \<Rightarrow> state fault + state" where
  "reset this s =
     (case weak_vars s this of
        None \<Rightarrow> Inl (Dead_variable this)
      | Some p \<Rightarrow>
          (case (case control p of None \<Rightarrow> Inr s | Some cb \<Rightarrow> release_weak cb s) of
             Inl e \<Rightarrow> Inl e
           | Inr s1 \<Rightarrow> Inr (s1\<lparr>weak_vars := (weak_vars s1)(this \<mapsto> empty_ptr)\<rparr>)))"

definition weak_assign_shared :: "var \<Rightarrow> var \<Rightarrow> state \<Rightarrow> state fault + state" where
  "weak_assign_shared this shared s =
     (case reset this s of
        Inl e \<Rightarrow> Inl e
      | Inr s1 \<Rightarrow>
          (case shared_vars s1 shared of
             None \<Rightarrow> Inl (Dead_variable shared)
           | Some q \<Rightarrow>
               (let s2 = s1\<lparr>weak_vars := (weak_vars s1)(this \<mapsto> q)\<rparr>
                in case control q of
                     None \<Rightarrow> Inr s2
                   | Some cb \<Rightarrow> add_weak cb s2)))"

definition my_weak_ptr_dtor :: "var \<Rightarrow> state \<Rightarrow> state fault + state" where
  "my_weak_ptr_dtor this s =
     (case reset this s of
        Inl e \<Rightarrow> Inl e
      | Inr s1 \<Rightarrow> Inr (s1\<lparr>weak_vars := (weak_vars s1)(this := None)\<rparr>))"

definition weak_use_count :: "var \<Rightarrow> state \<Rightarrow> state fault + 32 word" where
  "weak_use_count this s =
     (case weak_vars s this of
        None \<Rightarrow> Inl (Dead_variable this)
      | Some p \<Rightarrow>
          (case control p of
             None \<Rightarrow> Inr 0
           | Some cb \<Rightarrow> strong_count_load cb s))"

definition expired :: "var \<Rightarrow> state \<Rightarrow> state fault + bool" where
  "expired this s =
     (case weak_use_count this s of
        Inl e \<Rightarrow> Inl e
      | Inr n \<Rightarrow> Inr (n = 0))"

text \<open>
  \<open>if (!expired()) return my_shared_ptr<T>(*this); return my_shared_ptr<T>();\<close>
  The class \<open>my_shared_ptr\<close> declares no constructor that takes a \<open>my_weak_ptr\<close>, so the
  promotion is a parameter here: \<open>promote result this\<close> constructs the shared pointer
  \<open>result\<close> from the weak pointer \<open>this\<close>.
\<close>

definition lock ::
  "(var \<Rightarrow> var \<Rightarrow> state \<Rightarrow> state fault + state) \<Rightarrow> var \<Rightarrow> var \<Rightarrow> state \<Rightarrow> state fault + state" where
  "lock promote this result s =
     (case expired this s of
        Inl e \<Rightarrow> Inl e
      | Inr b \<Rightarrow>
          if \<not> b then promote result this s
          else my_shared_ptr_default result s)"

subsection \<open>Sequences of calls\<close>

text \<open>
  A client program is a sequence of calls on named variables, executed until the first
  fault. \<open>main_calls\<close> is the \<open>main\<close> of shared\_and\_weak.cpp: \<open>sp1\<close> and \<open>sp2\<close> are
  made, \<open>wp1\<close> is initialised from \<open>sp1\<close>, and at the closing brace the three are
  destroyed in reverse order of declaration.
\<close>

datatype call =
    Make_shared var bool
  | Shared_default var
  | Shared_from_raw var "obj_ptr option"
  | Shared_copy var var
  | Shared_move var var
  | Shared_copy_assign var var
  | Shared_move_assign var var
  | Shared_destroy var
  | Weak_default var
  | Weak_from_shared var var
  | Weak_copy var var
  | Weak_assign_shared var var
  | Weak_destroy var

fun exec :: "call \<Rightarrow> state \<Rightarrow> state fault + state" where
  "exec (Make_shared v ok) s = make_shared v ok s"
| "exec (Shared_default v) s = my_shared_ptr_default v s"
| "exec (Shared_from_raw v p) s = my_shared_ptr_from_raw v p s"
| "exec (Shared_copy v u) s = my_shared_ptr_copy v u s"
| "exec (Shared_move v u) s = my_shared_ptr_move v u s"
| "exec (Shared_copy_assign v u) s = shared_copy_assign v u s"
| "exec (Shared_move_assign v u) s = shared_move_assign v u s"
| "exec (Shared_destroy v) s = my_shared_ptr_dtor v s"
| "exec (Weak_default w) s = my_weak_ptr_default w s"
| "exec (Weak_from_shared w v) s = my_weak_ptr_from_shared w v s"
| "exec (Weak_copy w u) s = my_weak_ptr_copy w u s"
| "exec (Weak_assign_shared w v) s = weak_assign_shared w v s"
| "exec (Weak_destroy w) s = my_weak_ptr_dtor w s"

fun run :: "call list \<Rightarrow> state \<Rightarrow> state fault + state" where
  "run [] s = Inr s"
| "run (c # cs) s = (case exec c s of Inl e \<Rightarrow> Inl e | Inr s1 \<Rightarrow> run cs s1)"

definition main_calls :: "call list" where
  "main_calls =
     [Make_shared 1 True, Make_shared 2 True, Weak_from_shared 1 1,
      Weak_destroy 1, Shared_destroy 2, Shared_destroy 1]"

text \<open>Observations on the outcome of a run.\<close>

definition fault_of :: "state fault + 'a \<Rightarrow> state fault option" where
  "fault_of r = (case r of Inl e \<Rightarrow> Some e | Inr _ \<Rightarrow> None)"

definition block_in :: "state fault + state \<Rightarrow> addr \<Rightarrow> control_block option" where
  "block_in r cb = (case r of Inl _ \<Rightarrow> None | Inr s \<Rightarrow> blocks s cb)"

definition trace_of :: "state fault + state \<Rightarrow> event list" where
  "trace_of r = (case r of Inl _ \<Rightarrow> [] | Inr s \<Rightarrow> trace s)"

definition shared_in :: "state fault + state \<Rightarrow> var \<Rightarrow> smart_ptr option" where
  "shared_in r v = (case r of Inl _ \<Rightarrow> None | Inr s \<Rightarrow> shared_vars s v)"

definition weak_in :: "state fault + state \<Rightarrow> var \<Rightarrow> smart_ptr option" where
  "weak_in r w = (case r of Inl _ \<Rightarrow> None | Inr s \<Rightarrow> weak_vars s w)"

definition and_then :: "state fault + state \<Rightarrow> (state \<Rightarrow> state fault + 'a) \<Rightarrow> state fault + 'a" where
  "and_then r f = (case r of Inl e \<Rightarrow> Inl e | Inr s \<Rightarrow> f s)"

section \<open>The exclusive pointer of unique\_ptr.cpp\<close>

text \<open>
  \<open>my_unique_ptr\<close> holds one raw pointer. The state keeps the variables, the set of
  payload objects that \<open>new\<close> has created and \<open>delete\<close> has not yet destroyed, and the
  list of deleted objects in program order. \<open>delete\<close> on a null pointer does nothing;
  \<open>delete\<close> on an address that holds no live object is a fault.
\<close>

record ustate =
  unique_vars :: "var \<rightharpoonup> nat option"
  objects :: "nat set"
  deleted :: "nat list"
  next_obj :: nat

definition delete_raw :: "nat option \<Rightarrow> ustate \<Rightarrow> ustate fault + ustate" where
  "delete_raw rawPtr s =
     (case rawPtr of
        None \<Rightarrow> Inr s
      | Some p \<Rightarrow>
          if p \<in> objects s
          then Inr (s\<lparr>objects := objects s - {p}, deleted := deleted s @ [p]\<rparr>)
          else Inl (Invalid_delete p))"

definition my_unique_ptr_default :: "var \<Rightarrow> ustate \<Rightarrow> ustate fault + ustate" where
  "my_unique_ptr_default this s = Inr (s\<lparr>unique_vars := (unique_vars s)(this \<mapsto> None)\<rparr>)"

definition my_unique_ptr_from_raw :: "var \<Rightarrow> nat option \<Rightarrow> ustate \<Rightarrow> ustate fault + ustate" where
  "my_unique_ptr_from_raw this p s = Inr (s\<lparr>unique_vars := (unique_vars s)(this \<mapsto> p)\<rparr>)"

text \<open>\<open>my_unique_ptr(my_unique_ptr&& src) : rawPtr{src.rawPtr} { src.rawPtr = nullptr; }\<close>\<close>

definition my_unique_ptr_move :: "var \<Rightarrow> var \<Rightarrow> ustate \<Rightarrow> ustate fault + ustate" where
  "my_unique_ptr_move this src s =
     (case unique_vars s src of
        None \<Rightarrow> Inl (Dead_variable src)
      | Some r \<Rightarrow> Inr (s\<lparr>unique_vars := (unique_vars s)(this \<mapsto> r, src \<mapsto> None)\<rparr>))"

text \<open>
  \<open>if (this != &src) { delete rawPtr; rawPtr = src.rawPtr; src.rawPtr = nullptr; }\<close>
\<close>

definition unique_move_assign :: "var \<Rightarrow> var \<Rightarrow> ustate \<Rightarrow> ustate fault + ustate" where
  "unique_move_assign this src s =
     (if this \<noteq> src
      then (case unique_vars s this of
              None \<Rightarrow> Inl (Dead_variable this)
            | Some old \<Rightarrow>
                (case delete_raw old s of
                   Inl e \<Rightarrow> Inl e
                 | Inr s1 \<Rightarrow>
                     (case unique_vars s1 src of
                        None \<Rightarrow> Inl (Dead_variable src)
                      | Some r \<Rightarrow>
                          Inr (s1\<lparr>unique_vars := (unique_vars s1)(this \<mapsto> r, src \<mapsto> None)\<rparr>))))
      else Inr s)"

text \<open>\<open>~my_unique_ptr() { delete rawPtr; }\<close>, after which the variable is gone.\<close>

definition my_unique_ptr_dtor :: "var \<Rightarrow> ustate \<Rightarrow> ustate fault + ustate" where
  "my_unique_ptr_dtor this s =
     (case unique_vars s this of
        None \<Rightarrow> Inl (Dead_variable this)
      | Some r \<Rightarrow>
          (case delete_raw r s of
             Inl e \<Rightarrow> Inl e
           | Inr s1 \<Rightarrow> Inr (s1\<lparr>unique_vars := (unique_vars s1)(this := None)\<rparr>)))"

text \<open>\<open>operator->\<close> returns the raw pointer; \<open>operator*\<close> dereferences it.\<close>

definition arrow :: "var \<Rightarrow> ustate \<Rightarrow> ustate fault + nat option" where
  "arrow this s =
     (case unique_vars s this of
        None \<Rightarrow> Inl (Dead_variable this)
      | Some r \<Rightarrow> Inr r)"

definition deref :: "var \<Rightarrow> ustate \<Rightarrow> ustate fault + nat" where
  "deref this s =
     (case unique_vars s this of
        None \<Rightarrow> Inl (Dead_variable this)
      | Some None \<Rightarrow> Inl Null_dereference
      | Some (Some p) \<Rightarrow> Inr p)"

text \<open>
  \<open>return my_unique_ptr<T>(new T(...));\<close> A new-expression whose constructor throws
  gives its storage back before the exception leaves it.
\<close>

definition make_unique :: "var \<Rightarrow> bool \<Rightarrow> ustate \<Rightarrow> ustate fault + ustate" where
  "make_unique this ctor_returns s =
     (if ctor_returns
      then (let p = next_obj s
            in Inr (s\<lparr>objects := insert p (objects s), next_obj := Suc p,
                      unique_vars := (unique_vars s)(this \<mapsto> Some p)\<rparr>))
      else Inl (Constructor_threw s))"




definition uinit :: ustate where
  "uinit = \<lparr>unique_vars = Map.empty, objects = {}, deleted = [], next_obj = 0\<rparr>"

text \<open>How often the payload \<open>p\<close> has been destroyed when a run has ended.\<close>

definition destroyed :: "ustate fault + ustate \<Rightarrow> nat \<Rightarrow> nat" where
  "destroyed r p = (case r of Inl _ \<Rightarrow> 0 | Inr s \<Rightarrow> count_list (deleted s) p)"

section \<open>Sample states\<close>



section \<open>The release protocol in the words of the specification\<close>


section \<open>Unfolding the model\<close>

named_theorems model_defs

lemmas shared_weak_defs [model_defs] =
  init_def emit_def empty_ptr_def control_block_ctor_def
  strong_count_fetch_add_def strong_count_fetch_sub_def strong_count_load_def
  weak_count_fetch_sub_def add_weak_def release_weak_def release_strong_def
  my_shared_ptr_default_def my_shared_ptr_from_raw_def my_shared_ptr_copy_def
  my_shared_ptr_move_def release_def shared_copy_assign_def shared_move_assign_def
  my_shared_ptr_dtor_def shared_use_count_def make_shared_def
  my_weak_ptr_default_def my_weak_ptr_from_shared_def my_weak_ptr_copy_def reset_def
  weak_assign_shared_def my_weak_ptr_dtor_def weak_use_count_def expired_def lock_def

lemmas observe_defs [model_defs] =
  main_calls_def fault_of_def block_in_def trace_of_def shared_in_def weak_in_def and_then_def

lemmas unique_defs [model_defs] =
  delete_raw_def my_unique_ptr_default_def my_unique_ptr_from_raw_def my_unique_ptr_move_def
  unique_move_assign_def my_unique_ptr_dtor_def arrow_def deref_def make_unique_def
  uinit_def destroyed_def

section \<open>Moving a unique pointer\<close>



section \<open>What a release leaves untouched\<close>








text \<open>
  As long as the control block is still allocated, \<open>expired()\<close> tests the strong count
  for zero, and \<open>lock()\<close> promotes exactly when that count is not zero; an empty weak
  pointer is expired and locks to an empty shared pointer.
\<close>

lemma expired_on_allocated_block:
  "weak_vars s w = Some q \<Longrightarrow> control q = Some cb \<Longrightarrow> blocks s cb = Some c \<Longrightarrow>
   expired w s = Inr (strong_count c = 0)"
  by (simp add: expired_def weak_use_count_def strong_count_load_def)

lemma expired_on_empty:
  "weak_vars s w = Some q \<Longrightarrow> control q = None \<Longrightarrow> expired w s = Inr True"
  by (simp add: expired_def weak_use_count_def)

lemma lock_on_allocated_block:
  "weak_vars s w = Some q \<Longrightarrow> control q = Some cb \<Longrightarrow> blocks s cb = Some c \<Longrightarrow>
   lock promote w r s =
     (if strong_count c \<noteq> 0 then promote r w s else my_shared_ptr_default r s)"
  by (simp add: lock_def expired_on_allocated_block)

lemma lock_on_empty:
  "weak_vars s w = Some q \<Longrightarrow> control q = None \<Longrightarrow>
   lock promote w r s = my_shared_ptr_default r s"
  by (simp add: lock_def expired_on_empty)

section \<open>Copying and observing an empty shared pointer\<close>




section \<open>A payload constructor that throws inside make\_shared\<close>

text \<open>
  Claim C6, as stated: when the constructor of \<open>T\<close> fails in \<open>make_shared\<close>, no control
  block and no memory remain allocated. In the empty program state the exception leaves
  \<open>make_shared\<close> with the combined allocation at address 0 still in place, holding the
  control block that was constructed before the payload.
\<close>

theorem make_shared_throw_keeps_allocation:
  "make_shared 1 False init =
     Inl (Constructor_threw
       \<lparr>blocks = [0 \<mapsto> \<lparr>strong_count = 1, weak_count = 0\<rparr>], shared_vars = Map.empty,
        weak_vars = Map.empty, trace = [Operator_new 0], next_addr = 1\<rparr>)"
  by (simp add: model_defs)

text \<open>
  Claim C6, amended. When the constructor of \<open>T\<close> fails in \<open>make_shared\<close>, the failure
  reaches the caller and no shared pointer comes into being; nothing is rolled back: the
  combined allocation stays, with the freshly constructed control block (strong count 1,
  weak count 0) in it, and nothing is deallocated.
\<close>

theorem make_shared_throw_propagates_without_rollback:
  "\<exists>s1. make_shared this False s = Inl (Constructor_threw s1) \<and>
        blocks s1 = (blocks s)(next_addr s \<mapsto> \<lparr>strong_count = 1, weak_count = 0\<rparr>) \<and>
        shared_vars s1 = shared_vars s \<and> weak_vars s1 = weak_vars s \<and>
        trace s1 = trace s @ [Operator_new (next_addr s)]"
  by (simp add: make_shared_def emit_def control_block_ctor_def Let_def)

section \<open>The lifetime of the control block\<close>

text \<open>
  Two facts about any state. \<open>release_weak\<close> deletes the control block when the weak
  count is 1, whatever the strong count is. And when the sole owner of an object that no
  weak pointer observes lets go, the payload is destroyed but the control block stays
  allocated, its weak count wrapped around to \<open>- 1\<close>.
\<close>

lemma release_weak_deletes_at_one:
  "blocks s cb = Some c \<Longrightarrow> weak_count c = 1 \<Longrightarrow>
   block_in (release_weak cb s) cb = None \<and>
   trace_of (release_weak cb s) = trace s @ [Delete_block cb]"
  by (simp add: release_weak_def weak_count_fetch_sub_def emit_def block_in_def trace_of_def)

lemma sole_owner_leaves_block_allocated:
  "shared_vars s v = Some \<lparr>ptr = Some obj, control = Some cb\<rparr> \<Longrightarrow>
   blocks s cb = Some \<lparr>strong_count = 1, weak_count = 0\<rparr> \<Longrightarrow>
   block_in (release v s) cb = Some \<lparr>strong_count = 0, weak_count = - 1\<rparr> \<and>
   trace_of (release v s) = trace s @ [Destructor obj]"
  by (simp add: release_def strong_count_fetch_sub_def release_weak_def
      weak_count_fetch_sub_def emit_def block_in_def trace_of_def)

text \<open>
  Claim C1: the control block is destroyed only when both counts have reached zero and
  the strong side has released its implicit weak hold; it outlives the payload while
  weak pointers exist, and it is freed exactly once when no pointer remains.

  The \<open>main\<close> of shared\_and\_weak.cpp shows what the code does instead. After the three
  declarations the control block of \<open>sp1\<close> has strong count 1 and weak count 1. The
  destructor of \<open>wp1\<close> runs first and deletes that control block, although \<open>sp1\<close> still
  refers to it and its payload was never destroyed. The destructor of \<open>sp2\<close> destroys its
  payload and takes the weak count of its control block from 0 to \<open>- 1\<close>, so that this
  control block is never deleted. The destructor of \<open>sp1\<close> then decrements a counter in
  the control block that is gone.
\<close>

theorem main_deletes_control_block_of_live_owner:
  "main_calls = [Make_shared 1 True, Make_shared 2 True, Weak_from_shared 1 1,
                 Weak_destroy 1, Shared_destroy 2, Shared_destroy 1] \<and>
   block_in (run [Make_shared 1 True, Make_shared 2 True, Weak_from_shared 1 1] init) 0
     = Some \<lparr>strong_count = 1, weak_count = 1\<rparr> \<and>
   block_in (run [Make_shared 1 True, Make_shared 2 True, Weak_from_shared 1 1,
                  Weak_destroy 1] init) 0 = None \<and>
   shared_in (run [Make_shared 1 True, Make_shared 2 True, Weak_from_shared 1 1,
                   Weak_destroy 1] init) 1
     = Some \<lparr>ptr = Some (Adjacent 0), control = Some 0\<rparr> \<and>
   trace_of (run [Make_shared 1 True, Make_shared 2 True, Weak_from_shared 1 1,
                  Weak_destroy 1, Shared_destroy 2] init)
     = [Operator_new 0, Constructed (Adjacent 0), Operator_new 1, Constructed (Adjacent 1),
        Delete_block 0, Destructor (Adjacent 1)] \<and>
   block_in (run [Make_shared 1 True, Make_shared 2 True, Weak_from_shared 1 1,
                  Weak_destroy 1, Shared_destroy 2] init) 1
     = Some \<lparr>strong_count = 0, weak_count = - 1\<rparr> \<and>
   run main_calls init = Inl (Dangling_control 0)"
  by (simp add: model_defs)

text \<open>
  Claim C2: an object from \<open>make_shared\<close>, cloned N times, all N+1 instances destroyed in
  any order: the payload is destroyed exactly once, on the decrement that takes the
  strong count to zero, and the metadata is released exactly once, no earlier than that
  and only once the weak count is zero as well.

  With two clones and no weak pointer the payload is destroyed once, by the last
  destructor, but the control block is never deleted: it stays allocated with strong
  count 0 and weak count \<open>- 1\<close>. With one clone and one weak pointer that stays alive, the
  last shared destructor destroys the payload and deletes the control block at once,
  while the weak pointer still refers to it.
\<close>

theorem clones_destroyed_without_metadata_release:
  "trace_of (run [Make_shared 1 True, Shared_copy 2 1, Shared_copy 3 1,
                  Shared_destroy 2, Shared_destroy 1, Shared_destroy 3] init)
     = [Operator_new 0, Constructed (Adjacent 0), Destructor (Adjacent 0)] \<and>
   block_in (run [Make_shared 1 True, Shared_copy 2 1, Shared_copy 3 1,
                  Shared_destroy 2, Shared_destroy 1, Shared_destroy 3] init) 0
     = Some \<lparr>strong_count = 0, weak_count = - 1\<rparr> \<and>
   trace_of (run [Make_shared 1 True, Shared_copy 2 1, Weak_from_shared 1 1,
                  Shared_destroy 1, Shared_destroy 2] init)
     = [Operator_new 0, Constructed (Adjacent 0), Destructor (Adjacent 0), Delete_block 0] \<and>
   weak_in (run [Make_shared 1 True, Shared_copy 2 1, Weak_from_shared 1 1,
                 Shared_destroy 1, Shared_destroy 2] init) 1
     = Some \<lparr>ptr = Some (Adjacent 0), control = Some 0\<rparr>"
  by (simp add: model_defs)

section \<open>Expiry and use count after the control block is gone\<close>

text \<open>
  Claim C7: \<open>expired()\<close> is true iff the strong count is zero, it is true for an empty
  weak pointer and for one made from an empty shared pointer, and once true for an object
  it never becomes false again.

  With a single weak pointer, \<open>expired()\<close> after the destruction of the last shared
  pointer reads a deleted control block instead of returning true. With two weak
  pointers it returns true at that point, and reads a deleted control block as soon as
  the other weak pointer has been destroyed.
\<close>

theorem expired_after_last_owner_reads_deleted_block:
  "and_then (run [Make_shared 1 True, Weak_from_shared 1 1, Shared_destroy 1] init)
     (expired 1) = Inl (Dangling_control 0) \<and>
   and_then (run [Make_shared 1 True, Weak_from_shared 1 1, Weak_copy 2 1,
                  Shared_destroy 1] init)
     (expired 2) = Inr True \<and>
   and_then (run [Make_shared 1 True, Weak_from_shared 1 1, Weak_copy 2 1,
                  Shared_destroy 1, Weak_destroy 1] init)
     (expired 2) = Inl (Dangling_control 0)"
  by (simp add: model_defs)

text \<open>
  As long as the control block is allocated, \<open>use_count()\<close> of either class returns
  its strong count, and 0 for an instance without a control block.
\<close>

lemma use_count_on_allocated_block:
  "(shared_vars s v = Some p \<and> control p = None \<longrightarrow> shared_use_count v s = Inr 0) \<and>
   (shared_vars s v = Some p \<and> control p = Some cb \<and> blocks s cb = Some c
      \<longrightarrow> shared_use_count v s = Inr (strong_count c)) \<and>
   (weak_vars s w = Some q \<and> control q = None \<longrightarrow> weak_use_count w s = Inr 0) \<and>
   (weak_vars s w = Some q \<and> control q = Some cb' \<and> blocks s cb' = Some c'
      \<longrightarrow> weak_use_count w s = Inr (strong_count c'))"
  by (simp add: shared_use_count_def weak_use_count_def strong_count_load_def)

text \<open>
  Claim C9: for every shared pointer and every weak pointer, \<open>use_count()\<close> returns the
  current strong count of the associated control block, and 0 for an empty instance.

  Make an object, observe it with a weak pointer, destroy the weak pointer: the run does
  not fault, the control block is deleted, the shared pointer still holds its address,
  and \<open>use_count()\<close> on the shared pointer reads the strong count through that address.
  Destroy the shared pointer instead: the same holds for \<open>use_count()\<close> on the weak
  pointer.
\<close>

theorem use_count_reads_deleted_block:
  "fault_of (run [Make_shared 1 True, Weak_from_shared 1 1, Weak_destroy 1] init) = None \<and>
   block_in (run [Make_shared 1 True, Weak_from_shared 1 1, Weak_destroy 1] init) 0 = None \<and>
   shared_in (run [Make_shared 1 True, Weak_from_shared 1 1, Weak_destroy 1] init) 1
     = Some \<lparr>ptr = Some (Adjacent 0), control = Some 0\<rparr> \<and>
   and_then (run [Make_shared 1 True, Weak_from_shared 1 1, Weak_destroy 1] init)
     (shared_use_count 1) = Inl (Dangling_control 0) \<and>
   fault_of (run [Make_shared 1 True, Weak_from_shared 1 1, Shared_destroy 1] init) = None \<and>
   block_in (run [Make_shared 1 True, Weak_from_shared 1 1, Shared_destroy 1] init) 0 = None \<and>
   weak_in (run [Make_shared 1 True, Weak_from_shared 1 1, Shared_destroy 1] init) 1
     = Some \<lparr>ptr = Some (Adjacent 0), control = Some 0\<rparr> \<and>
   and_then (run [Make_shared 1 True, Weak_from_shared 1 1, Shared_destroy 1] init)
     (weak_use_count 1) = Inl (Dangling_control 0)"
  by (simp add: model_defs)

section \<open>The check and the increment of a promotion\<close>


section \<open>The two release paths\<close>




end
